theory Spec2Isabelle
  imports Complex_Main
begin

section \<open>Exceptions\<close>

text \<open>
  The exceptions the preprocessing class can raise, as values. \<open>ParameterError\<close> is the
  class imported from the configuration tools (raised with the name of the offending
  parameter); the others are Python's own: reading a parameter that was never set,
  calling a name that is bound nowhere in the module, indexing out of range, and numpy's
  refusal to broadcast shapes that do not fit.
\<close>

datatype error =
    ParameterError string
  | AttributeError string
  | NameError string
  | IndexError
  | ValueError

fun error_name :: "error \<Rightarrow> string" where
  "error_name (ParameterError k) = ''ParameterError''"
| "error_name (AttributeError k) = ''AttributeError''"
| "error_name (NameError k) = ''NameError''"
| "error_name IndexError = ''IndexError''"
| "error_name ValueError = ''ValueError''"

section \<open>Floating-point values\<close>

text \<open>
  A sample of a trace, and any number numpy computes from samples, is a float64 value: a
  finite number, an infinity or NaN. Which finite numbers are representable and how a
  result is rounded is numpy's matter, not this class's: the arithmetic the class asks
  numpy for is a parameter (see \<open>numpy\<close> below). The class itself only compares a
  norm with zero, \<open>w > 0\<close>, which is false for NaN.
\<close>

datatype float64 = Finite real | PosInf | NegInf | NaN

fun positive :: "float64 \<Rightarrow> bool" where
  "positive (Finite r) = (0 < r)"
| "positive PosInf = True"
| "positive NegInf = False"
| "positive NaN = False"

section \<open>Parameters and headers\<close>

text \<open>
  \<open>PAR\<close>, the global parameter object: one optional field per key the class reads,
  \<open>None\<close> when the key is not set (\<open>'KEY' not in PAR\<close>). The numbers of the
  configuration and of the header are finite numbers.
\<close>

record params =
  MISFIT :: "string option"
  FORMAT :: "string option"
  CHANNELS :: "string option"
  NORMALIZE :: "bool option"
  MUTE :: "bool option"
  MUTESLOPE :: "real option"
  MUTECONST :: "real option"
  BANDPASS :: "bool option"
  FREQLO :: "real option"
  FREQHI :: "real option"
  DT :: "real option"
  NT :: "int option"
  NREC :: "int option"

text \<open>The trace header: sample interval, sample count, receiver count.\<close>

record header =
  dt :: real
  nt :: int
  nr :: int

text \<open>
  Reading \<open>PAR.KEY\<close>: the value, or the exception when the key was never set. The class
  of \<open>PAR\<close> is outside this module; the read of an attribute that was never set is
  taken to raise \<open>AttributeError\<close>, as it does on a Python object. After \<open>check\<close> has
  returned, every key but \<open>DT\<close>, \<open>NT\<close> and \<open>NREC\<close> is set and no such read fails.
\<close>

definition par :: "'a option \<Rightarrow> string \<Rightarrow> error + 'a" where
  "par v key = (case v of None \<Rightarrow> Inl (AttributeError key) | Some x \<Rightarrow> Inr x)"

subsection \<open>check\<close>

text \<open>
  \<open>check\<close> fills in defaults and raises on a missing \<open>FORMAT\<close> or \<open>CHANNELS\<close>. It
  mutates \<open>PAR\<close>, so the updated parameters are returned beside the outcome; the
  default of \<open>MISFIT\<close> is set before either raise.
\<close>

text \<open>\<open>if 'KEY' not in PAR: setattr(PAR, 'KEY', d)\<close>, on the field of the key.\<close>

definition setdefault :: "'a option \<Rightarrow> 'a \<Rightarrow> 'a option" where
  "setdefault v d = (case v of None \<Rightarrow> Some d | Some x \<Rightarrow> Some x)"

definition check :: "params \<Rightarrow> (error + unit) \<times> params" where
  "check PAR =
     (let P1 = PAR\<lparr>MISFIT := setdefault (MISFIT PAR) ''wav''\<rparr> in
      if FORMAT P1 = None then (Inl (ParameterError ''FORMAT''), P1)
      else if CHANNELS P1 = None then (Inl (ParameterError ''CHANNELS''), P1)
      else
        (Inr (),
         P1\<lparr>NORMALIZE := setdefault (NORMALIZE P1) True,
            MUTE := setdefault (MUTE P1) False,
            MUTESLOPE := setdefault (MUTESLOPE P1) 0,
            MUTECONST := setdefault (MUTECONST P1) 0,
            BANDPASS := setdefault (BANDPASS P1) False,
            FREQLO := setdefault (FREQLO P1) 0,
            FREQHI := setdefault (FREQHI P1) 0\<rparr>))"

subsection \<open>check_headers\<close>

text \<open>
  \<open>headers\<close> is the mapping from channel to header, as the list of its items in the
  order \<open>values()\<close> enumerates them. \<open>headers.values()[0]\<close> raises \<open>IndexError\<close> on an
  empty mapping. The result is the header and the lines printed.
\<close>

definition check_headers :: "params \<Rightarrow> (string \<times> header) list \<Rightarrow> error + (header \<times> string list)" where
  "check_headers PAR headers =
     (case map snd headers of
        [] \<Rightarrow> Inl IndexError
      | h # _ \<Rightarrow>
          (let h1 = (case DT PAR of
                       None \<Rightarrow> h
                     | Some d \<Rightarrow> if dt h \<noteq> d then h\<lparr>dt := d\<rparr> else h);
               out1 = (case NT PAR of
                         None \<Rightarrow> []
                       | Some n \<Rightarrow> if nt h1 \<noteq> n then [''Warning: h.nt != PAR.NT''] else []);
               out2 = (case NREC PAR of
                         None \<Rightarrow> []
                       | Some n \<Rightarrow> if nr h1 \<noteq> n then [''Warning: h.nr != PAR.NREC''] else [])
           in Inr (h1, out1 @ out2)))"

section \<open>Trace matrices and the collaborators\<close>

text \<open>
  A trace is one column \<open>s[:,i]\<close> of a trace matrix; a matrix of shape \<open>[nt, nr]\<close> is the
  list of its \<open>nr\<close> columns. The class mutates the arrays it is given (\<open>s[:,i] = ...\<close>,
  \<open>s[:,ir] /= w\<close>), and two names may refer to one array, so arrays live in a store and
  the functions take their addresses. The world also holds the files written with
  \<open>np.savetxt\<close>.
\<close>

type_synonym trace = "float64 list"
type_synonym matrix = "trace list"
type_synonym addr = nat

record world =
  arrays :: "addr \<Rightarrow> matrix"
  files :: "string \<Rightarrow> float64 list option"

text \<open>
  What the module imports from \<open>seistools\<close> and this class calls: the kernels of
  \<open>misfit\<close> and \<open>adjoint\<close>, functions of the two traces, \<open>nt\<close> and \<open>dt\<close> (and \<open>eps\<close>
  for the envelope kernels), and the stages \<open>sbandpass\<close> and \<open>smute\<close>, which take an
  array and return one (the array given, changed in place, or a new one). Their code is
  outside this class; they are parameters. The last argument of \<open>sbandpass\<close> is the
  optional flag (\<open>None\<close> when the call omits it).
\<close>

record seistools =
  misfit_wdiff :: "trace \<Rightarrow> trace \<Rightarrow> int \<Rightarrow> real \<Rightarrow> float64"
  misfit_wtime :: "trace \<Rightarrow> trace \<Rightarrow> int \<Rightarrow> real \<Rightarrow> float64"
  misfit_wampl :: "trace \<Rightarrow> trace \<Rightarrow> int \<Rightarrow> real \<Rightarrow> float64"
  misfit_ediff :: "trace \<Rightarrow> trace \<Rightarrow> int \<Rightarrow> real \<Rightarrow> real \<Rightarrow> float64"
  misfit_cdiff :: "trace \<Rightarrow> trace \<Rightarrow> int \<Rightarrow> real \<Rightarrow> float64"
  adjoint_wdiff :: "trace \<Rightarrow> trace \<Rightarrow> int \<Rightarrow> real \<Rightarrow> trace"
  adjoint_wtime :: "trace \<Rightarrow> trace \<Rightarrow> int \<Rightarrow> real \<Rightarrow> trace"
  adjoint_wampl :: "trace \<Rightarrow> trace \<Rightarrow> int \<Rightarrow> real \<Rightarrow> trace"
  adjoint_ediff :: "trace \<Rightarrow> trace \<Rightarrow> int \<Rightarrow> real \<Rightarrow> real \<Rightarrow> trace"
  adjoint_cdiff :: "trace \<Rightarrow> trace \<Rightarrow> int \<Rightarrow> real \<Rightarrow> trace"
  sbandpass :: "world \<Rightarrow> addr \<Rightarrow> header \<Rightarrow> real \<Rightarrow> real \<Rightarrow> string option \<Rightarrow> addr \<times> world"
  smute :: "world \<Rightarrow> addr \<Rightarrow> header \<Rightarrow> real \<Rightarrow> real \<Rightarrow> bool \<Rightarrow> addr \<times> world"

text \<open>
  Reading the column \<open>s[:,i]\<close> and assigning to it. An index past the last column raises
  \<open>IndexError\<close>; an assigned trace must have the column's length or length one (numpy
  broadcasts it), anything else raises \<open>ValueError\<close>.
\<close>

definition getcol :: "matrix \<Rightarrow> nat \<Rightarrow> error + trace" where
  "getcol s i = (if i < length s then Inr (s ! i) else Inl IndexError)"

definition broadcast :: "nat \<Rightarrow> trace \<Rightarrow> error + trace" where
  "broadcast n w =
     (if length w = n then Inr w
      else if length w = 1 then Inr (replicate n (hd w))
      else Inl ValueError)"

definition setcol :: "matrix \<Rightarrow> nat \<Rightarrow> trace \<Rightarrow> error + matrix" where
  "setcol s i w =
     (if \<not> i < length s then Inl IndexError
      else (case broadcast (length (s ! i)) w of
              Inl e \<Rightarrow> Inl e
            | Inr c \<Rightarrow> Inr (s[i := c])))"

definition store :: "world \<Rightarrow> addr \<Rightarrow> matrix \<Rightarrow> world" where
  "store W a m = W\<lparr>arrays := (arrays W)(a := m)\<rparr>"

text \<open>
  What the class asks of numpy on samples: \<open>np.linalg.norm(x, ord=2)\<close> of a trace, as
  numpy computes it in float64 (squares may underflow to zero or overflow to infinity, and
  a NaN sample gives NaN), and the division of one sample by a number, which \<open>/=\<close>
  applies to every sample of a column. Both are parameters.
\<close>

record numpy =
  linalg_norm :: "trace \<Rightarrow> float64"
  true_divide :: "float64 \<Rightarrow> float64 \<Rightarrow> float64"

section \<open>Misfit and adjoint wrappers\<close>


text \<open>\<open>str.lower()\<close> on a byte string: the letters A to Z move to a to z.\<close>

definition lower_char :: "char \<Rightarrow> char" where
  "lower_char c =
     (case map_of (zip ''ABCDEFGHIJKLMNOPQRSTUVWXYZ'' ''abcdefghijklmnopqrstuvwxyz'') c of
        Some l \<Rightarrow> l
      | None \<Rightarrow> c)"

definition lower :: "string \<Rightarrow> string" where
  "lower s = map lower_char s"

definition call_adjoint :: "seistools \<Rightarrow> params \<Rightarrow> trace \<Rightarrow> trace \<Rightarrow> int \<Rightarrow> real \<Rightarrow> error + trace" where
  "call_adjoint K PAR wsyn wobs nt' dt' =
     (case par (MISFIT PAR) ''MISFIT'' of
        Inl e \<Rightarrow> Inl e
      | Inr m \<Rightarrow>
          (let opt = lower m in
           if opt \<in> set [''waveform'', ''wav'', ''wdiff'']
             then Inr (adjoint_wdiff K wsyn wobs nt' dt')
           else if opt \<in> set [''traveltime'', ''tt'', ''wtime'']
             then Inr (adjoint_wtime K wsyn wobs nt' dt')
           else if opt \<in> set [''amplitude'', ''ampl'', ''wampl'']
             then Inr (adjoint_wampl K wsyn wobs nt' dt')
           else if opt \<in> set [''envelope'', ''env'', ''ediff'']
             then Inr (adjoint_ediff K wsyn wobs nt' dt' (5 / 100))
           else if opt \<in> set [''cdiff'']
             then Inr (adjoint_cdiff K wsyn wobs nt' dt')
           else Inr wobs))"

definition call_misfit :: "seistools \<Rightarrow> params \<Rightarrow> trace \<Rightarrow> trace \<Rightarrow> int \<Rightarrow> real \<Rightarrow> error + float64" where
  "call_misfit K PAR wsyn wobs nt' dt' =
     (case par (MISFIT PAR) ''MISFIT'' of
        Inl e \<Rightarrow> Inl e
      | Inr m \<Rightarrow>
          (let opt = lower m in
           if opt \<in> set [''waveform'', ''wav'', ''wdiff'']
             then Inr (misfit_wdiff K wsyn wobs nt' dt')
           else if opt \<in> set [''traveltime'', ''tt'', ''wtime'']
             then Inr (misfit_wtime K wsyn wobs nt' dt')
           else if opt \<in> set [''amplitude'', ''ampl'', ''wampl'']
             then Inr (misfit_wampl K wsyn wobs nt' dt')
           else if opt \<in> set [''envelope'', ''env'', ''ediff'']
             then Inr (misfit_ediff K wsyn wobs nt' dt' (5 / 100))
           else if opt \<in> set [''cdiff'']
             then Inr (misfit_cdiff K wsyn wobs nt' dt')
           else Inr (Finite 0)))"

text \<open>The alias groups, as the wrappers list them.\<close>

definition alias_groups :: "string list list" where
  "alias_groups =
     [[''waveform'', ''wav'', ''wdiff''],
      [''traveltime'', ''tt'', ''wtime''],
      [''amplitude'', ''ampl'', ''wampl''],
      [''envelope'', ''env'', ''ediff''],
      [''cdiff'']]"

definition recognized :: "string \<Rightarrow> bool" where
  "recognized name = (lower name \<in> set (concat alias_groups))"

section \<open>Processing stages\<close>

subsection \<open>The filter block\<close>

text \<open>
  The block \<open>if PAR.FREQLO and PAR.FREQHI: ... elif PAR.FREQHI: ... elif PAR.FREQHI: ...
  else: raise\<close> under \<open>if PAR.BANDPASS\<close>, which \<open>process_traces\<close> has without a flag and
  \<open>generate_adjoint_traces\<close> has with the flag \<open>'reverse'\<close>. The module imports
  \<open>sbandpass\<close> only: \<open>shighpass\<close> and \<open>slowpass\<close> are bound nowhere, so calling them
  raises \<open>NameError\<close>. Both \<open>elif\<close> tests read \<open>PAR.FREQHI\<close>, as the source has them.
  A number is true when it is not zero. \<open>PAR.FREQLO\<close> is read first and \<open>PAR.FREQHI\<close>
  second on every path: by the \<open>and\<close> when the low corner is not zero, by the first
  \<open>elif\<close> when it is.
\<close>

definition filter_block :: "seistools \<Rightarrow> params \<Rightarrow> string option \<Rightarrow> world \<Rightarrow> addr \<Rightarrow> header \<Rightarrow> (error + addr) \<times> world" where
  "filter_block T PAR flag W s h =
     (case par (FREQLO PAR) ''FREQLO'' of
        Inl e \<Rightarrow> (Inl e, W)
      | Inr lo \<Rightarrow>
     (case par (FREQHI PAR) ''FREQHI'' of
        Inl e \<Rightarrow> (Inl e, W)
      | Inr hi \<Rightarrow>
          if lo \<noteq> 0 \<and> hi \<noteq> 0 then
            (case sbandpass T W s h lo hi flag of (s', W') \<Rightarrow> (Inr s', W'))
          else if hi \<noteq> 0 then (Inl (NameError ''shighpass''), W)
          else if hi \<noteq> 0 then (Inl (NameError ''slowpass''), W)
          else (Inl (ParameterError ''BANDPASS''), W)))"

definition filter_stage :: "seistools \<Rightarrow> params \<Rightarrow> string option \<Rightarrow> world \<Rightarrow> addr \<Rightarrow> header \<Rightarrow> (error + addr) \<times> world" where
  "filter_stage T PAR flag W s h =
     (case par (BANDPASS PAR) ''BANDPASS'' of
        Inl e \<Rightarrow> (Inl e, W)
      | Inr b \<Rightarrow> if b then filter_block T PAR flag W s h else (Inr s, W))"

subsection \<open>process_traces\<close>

definition mute_stage :: "seistools \<Rightarrow> params \<Rightarrow> world \<Rightarrow> addr \<Rightarrow> header \<Rightarrow> (error + addr) \<times> world" where
  "mute_stage T PAR W s h =
     (case par (MUTE PAR) ''MUTE'' of
        Inl e \<Rightarrow> (Inl e, W)
      | Inr m \<Rightarrow>
          if m then
            (case par (MUTESLOPE PAR) ''MUTESLOPE'' of
               Inl e \<Rightarrow> (Inl e, W)
             | Inr vel \<Rightarrow>
            (case par (MUTECONST PAR) ''MUTECONST'' of
               Inl e \<Rightarrow> (Inl e, W)
             | Inr off \<Rightarrow>
                 (case smute T W s h vel off False of (s', W') \<Rightarrow> (Inr s', W'))))
          else (Inr s, W))"

definition process_traces :: "seistools \<Rightarrow> params \<Rightarrow> world \<Rightarrow> addr \<Rightarrow> header \<Rightarrow> (error + addr) \<times> world" where
  "process_traces T PAR W s h =
     (case filter_stage T PAR None W s h of
        (Inl e, W1) \<Rightarrow> (Inl e, W1)
      | (Inr s1, W1) \<Rightarrow> mute_stage T PAR W1 s1 h)"

subsection \<open>write_residuals\<close>

text \<open>
  The loop appends one misfit per receiver \<open>i\<close> in \<open>range(h.nr)\<close>; then the vector is
  written to the file \<open>residuals\<close> and returned.
\<close>

fun residuals_loop :: "seistools \<Rightarrow> params \<Rightarrow> world \<Rightarrow> addr \<Rightarrow> addr \<Rightarrow> header \<Rightarrow> nat list \<Rightarrow> float64 list \<Rightarrow> error + float64 list" where
  "residuals_loop T PAR W s d h [] r = Inr r"
| "residuals_loop T PAR W s d h (i # rest) r =
     (case getcol (arrays W s) i of
        Inl e \<Rightarrow> Inl e
      | Inr wsyn \<Rightarrow>
     (case getcol (arrays W d) i of
        Inl e \<Rightarrow> Inl e
      | Inr wobs \<Rightarrow>
     (case call_misfit T PAR wsyn wobs (nt h) (dt h) of
        Inl e \<Rightarrow> Inl e
      | Inr e \<Rightarrow> residuals_loop T PAR W s d h rest (r @ [e]))))"

definition write_residuals :: "seistools \<Rightarrow> params \<Rightarrow> world \<Rightarrow> addr \<Rightarrow> addr \<Rightarrow> header \<Rightarrow> (error + float64 list) \<times> world" where
  "write_residuals T PAR W s d h =
     (case residuals_loop T PAR W s d h [0..<nat (nr h)] [] of
        Inl e \<Rightarrow> (Inl e, W)
      | Inr r \<Rightarrow> (Inr r, W\<lparr>files := (files W)(''residuals'' \<mapsto> r)\<rparr>))"

subsection \<open>generate_adjoint_traces\<close>

fun adjoint_loop :: "seistools \<Rightarrow> params \<Rightarrow> addr \<Rightarrow> addr \<Rightarrow> header \<Rightarrow> nat list \<Rightarrow> world \<Rightarrow> (error + unit) \<times> world" where
  "adjoint_loop T PAR s d h [] W = (Inr (), W)"
| "adjoint_loop T PAR s d h (i # rest) W =
     (case getcol (arrays W s) i of
        Inl e \<Rightarrow> (Inl e, W)
      | Inr wsyn \<Rightarrow>
     (case getcol (arrays W d) i of
        Inl e \<Rightarrow> (Inl e, W)
      | Inr wobs \<Rightarrow>
     (case call_adjoint T PAR wsyn wobs (nt h) (dt h) of
        Inl e \<Rightarrow> (Inl e, W)
      | Inr w \<Rightarrow>
     (case setcol (arrays W s) i w of
        Inl e \<Rightarrow> (Inl e, W)
      | Inr m \<Rightarrow> adjoint_loop T PAR s d h rest (store W s m)))))"

fun normalize_loop :: "numpy \<Rightarrow> addr \<Rightarrow> addr \<Rightarrow> nat list \<Rightarrow> world \<Rightarrow> (error + unit) \<times> world" where
  "normalize_loop NP s d [] W = (Inr (), W)"
| "normalize_loop NP s d (ir # rest) W =
     (case getcol (arrays W d) ir of
        Inl e \<Rightarrow> (Inl e, W)
      | Inr wobs \<Rightarrow>
          (let w = linalg_norm NP wobs in
           if positive w then
             (case getcol (arrays W s) ir of
                Inl e \<Rightarrow> (Inl e, W)
              | Inr col \<Rightarrow>
                  normalize_loop NP s d rest
                    (store W s ((arrays W s)[ir := map (\<lambda>x. true_divide NP x w) col])))
           else normalize_loop NP s d rest W))"

definition normalize_stage :: "numpy \<Rightarrow> params \<Rightarrow> world \<Rightarrow> addr \<Rightarrow> addr \<Rightarrow> header \<Rightarrow> (error + addr) \<times> world" where
  "normalize_stage NP PAR W s d h =
     (case par (NORMALIZE PAR) ''NORMALIZE'' of
        Inl e \<Rightarrow> (Inl e, W)
      | Inr n \<Rightarrow>
          if n then
            (case normalize_loop NP s d [0..<nat (nr h)] W of
               (Inl e, W') \<Rightarrow> (Inl e, W')
             | (Inr u, W') \<Rightarrow> (Inr s, W'))
          else (Inr s, W))"

definition generate_adjoint_traces :: "numpy \<Rightarrow> seistools \<Rightarrow> params \<Rightarrow> world \<Rightarrow> addr \<Rightarrow> addr \<Rightarrow> header \<Rightarrow> (error + addr) \<times> world" where
  "generate_adjoint_traces NP T PAR W s d h =
     (case adjoint_loop T PAR s d h [0..<nat (nr h)] W of
        (Inl e, W1) \<Rightarrow> (Inl e, W1)
      | (Inr u, W1) \<Rightarrow>
     (case filter_stage T PAR (Some ''reverse'') W1 s h of
        (Inl e, W2) \<Rightarrow> (Inl e, W2)
      | (Inr s2, W2) \<Rightarrow> normalize_stage NP PAR W2 s2 d h))"

section \<open>Example inputs\<close>

text \<open>
  Concrete collaborators and inputs on which the theorems below are evaluated. The
  example numpy is exact on finite samples: the norm is the root of the sum of squares,
  NaN when a sample is NaN and infinite when one is infinite; division follows the rules
  for infinities and NaN. The waveform kernels are the sample-wise difference and its
  squared sum times \<open>dt\<close>; \<open>example_smute\<close> zeroes every sample earlier than
  \<open>vel * offset + off\<close>, with receiver \<open>i\<close> at offset \<open>i\<close>, in place;
  \<open>example_sbandpass\<close> halves every sample in place.
\<close>

definition example_norm :: "trace \<Rightarrow> float64" where
  "example_norm xs =
     (if NaN \<in> set xs then NaN
      else if PosInf \<in> set xs \<or> NegInf \<in> set xs then PosInf
      else Finite (sqrt (sum_list (map (\<lambda>x. case x of Finite r \<Rightarrow> r ^ 2 | _ \<Rightarrow> 0) xs))))"

fun example_divide :: "float64 \<Rightarrow> float64 \<Rightarrow> float64" where
  "example_divide NaN y = NaN"
| "example_divide x NaN = NaN"
| "example_divide (Finite a) (Finite b) =
     (if b \<noteq> 0 then Finite (a / b)
      else if 0 < a then PosInf else if a < 0 then NegInf else NaN)"
| "example_divide (Finite a) y = Finite 0"
| "example_divide x (Finite b) =
     (if (x = PosInf) = (0 \<le> b) then PosInf else NegInf)"
| "example_divide x y = NaN"

definition example_numpy :: numpy where
  "example_numpy = \<lparr>linalg_norm = example_norm, true_divide = example_divide\<rparr>"

fun example_subtract :: "float64 \<Rightarrow> float64 \<Rightarrow> float64" where
  "example_subtract (Finite a) (Finite b) = Finite (a - b)"
| "example_subtract NaN y = NaN"
| "example_subtract x NaN = NaN"
| "example_subtract (Finite a) PosInf = NegInf"
| "example_subtract (Finite a) NegInf = PosInf"
| "example_subtract x (Finite b) = x"
| "example_subtract x y = (if x = y then NaN else x)"

definition example_misfit_wdiff :: "trace \<Rightarrow> trace \<Rightarrow> int \<Rightarrow> real \<Rightarrow> float64" where
  "example_misfit_wdiff s d n t =
     (case example_norm (map2 example_subtract s d) of
        Finite r \<Rightarrow> Finite (r ^ 2 * t)
      | x \<Rightarrow> x)"

definition example_smute :: "world \<Rightarrow> addr \<Rightarrow> header \<Rightarrow> real \<Rightarrow> real \<Rightarrow> bool \<Rightarrow> addr \<times> world" where
  "example_smute W a h vel off cs =
     (a, store W a
        (map (\<lambda>(i, col). map (\<lambda>(k, x). if real k * dt h < vel * real i + off then Finite 0 else x)
                              (enumerate 0 col))
             (enumerate 0 (arrays W a))))"

definition example_sbandpass :: "world \<Rightarrow> addr \<Rightarrow> header \<Rightarrow> real \<Rightarrow> real \<Rightarrow> string option \<Rightarrow> addr \<times> world" where
  "example_sbandpass W a h lo hi flag =
     (a, store W a (map (map (\<lambda>x. example_divide x (Finite 2))) (arrays W a)))"

definition example_tools :: seistools where
  "example_tools =
     \<lparr>misfit_wdiff = example_misfit_wdiff,
      misfit_wtime = (\<lambda>s d n t. Finite 1),
      misfit_wampl = (\<lambda>s d n t. Finite 2),
      misfit_ediff = (\<lambda>s d n t eps. Finite 3),
      misfit_cdiff = (\<lambda>s d n t. Finite 4),
      adjoint_wdiff = (\<lambda>s d n t. map2 example_subtract s d),
      adjoint_wtime = (\<lambda>s d n t. map (\<lambda>x. example_subtract x (Finite 1)) s),
      adjoint_wampl = (\<lambda>s d n t. map (\<lambda>x. example_subtract x (Finite 2)) s),
      adjoint_ediff = (\<lambda>s d n t eps. map (\<lambda>x. example_subtract x (Finite 3)) s),
      adjoint_cdiff = (\<lambda>s d n t. map (\<lambda>x. example_subtract x (Finite 4)) s),
      sbandpass = example_sbandpass,
      smute = example_smute\<rparr>"

text \<open>A parameter object with nothing set but the two required keys, and what \<open>check\<close> makes of it.\<close>

definition example_raw_params :: params where
  "example_raw_params =
     \<lparr>MISFIT = None, FORMAT = Some ''su'', CHANNELS = Some ''xz'', NORMALIZE = None,
      MUTE = None, MUTESLOPE = None, MUTECONST = None, BANDPASS = None, FREQLO = None,
      FREQHI = None, DT = None, NT = None, NREC = None\<rparr>"

definition example_params :: params where
  "example_params =
     \<lparr>MISFIT = Some ''wav'', FORMAT = Some ''su'', CHANNELS = Some ''xz'',
      NORMALIZE = Some True, MUTE = Some False, MUTESLOPE = Some 0, MUTECONST = Some 0,
      BANDPASS = Some False, FREQLO = Some 0, FREQHI = Some 0, DT = None, NT = None,
      NREC = None\<rparr>"

text \<open>
  Two arrays of two samples by three receivers: the synthetics at address 0, the
  observations at address 1; the second observed trace is all zero.
\<close>

definition example_world :: world where
  "example_world =
     \<lparr>arrays = (\<lambda>a. if a = 0 then [[Finite 1, Finite 1], [Finite 1, Finite 1], [Finite 1, Finite 1]]
                     else if a = 1 then [[Finite 3, Finite 4], [Finite 0, Finite 0], [Finite 2, Finite 0]]
                     else []),
      files = Map.empty\<rparr>"

definition example_header :: header where
  "example_header = \<lparr>dt = 1, nt = 2, nr = 3\<rparr>"

text \<open>
  Two arrays of two samples by two receivers, the synthetics at address 0 and the
  observations at address 1; the first observed trace holds a NaN.
\<close>

definition nan_world :: world where
  "nan_world =
     \<lparr>arrays = (\<lambda>a. if a = 0 then [[Finite 1, Finite 3], [Finite 1, Finite 3]]
                     else if a = 1 then [[NaN, Finite 1], [Finite 0, Finite 2]]
                     else []),
      files = Map.empty\<rparr>"

definition nan_header :: header where
  "nan_header = \<lparr>dt = 1, nt = 2, nr = 2\<rparr>"

section \<open>Facts about the wrappers\<close>

lemma lower_examples:
  "lower ''WAV'' = ''wav''" "lower ''waveform'' = ''waveform''" "lower ''bogus'' = ''bogus''"
  by (simp_all add: lower_def lower_char_def)

text \<open>
  C2. A misfit name that, lowered, is in none of the alias groups: the misfit wrapper
  returns exactly 0, the adjoint wrapper returns the observed trace as it is.
\<close>

theorem unknown_kernel_fallback:
  assumes "MISFIT PAR = Some name" and "\<not> recognized name"
  shows "call_misfit T PAR wsyn wobs n d = Inr (Finite 0) \<and> call_adjoint T PAR wsyn wobs n d = Inr wobs"
  using assms
  by (simp add: recognized_def alias_groups_def call_misfit_def call_adjoint_def par_def)

theorem unknown_kernel_fallback_witness:
  "call_misfit example_tools (example_params\<lparr>MISFIT := Some ''bogus''\<rparr>) [Finite 1, Finite 1] [Finite 3, Finite 4] 2 1 = Inr (Finite 0)
   \<and> call_adjoint example_tools (example_params\<lparr>MISFIT := Some ''bogus''\<rparr>) [Finite 1, Finite 1] [Finite 3, Finite 4] 2 1 = Inr [Finite 3, Finite 4]"
proof -
  have a: "MISFIT (example_params\<lparr>MISFIT := Some ''bogus''\<rparr>) = Some ''bogus''"
    by simp
  have b: "\<not> recognized ''bogus''"
    by (simp add: recognized_def alias_groups_def lower_examples)
  show ?thesis
    using unknown_kernel_fallback [OF a b] by simp
qed

text \<open>
  C7. Two names that, lowered, fall in the same alias group give the same result from
  the misfit wrapper and the same result from the adjoint wrapper, on any pair of traces
  and any \<open>nt\<close>, \<open>dt\<close>.
\<close>

theorem alias_equivalence:
  assumes "g \<in> set alias_groups" and "lower n1 \<in> set g" and "lower n2 \<in> set g"
  shows "call_misfit T (PAR\<lparr>MISFIT := Some n1\<rparr>) wsyn wobs n d
           = call_misfit T (PAR\<lparr>MISFIT := Some n2\<rparr>) wsyn wobs n d
       \<and> call_adjoint T (PAR\<lparr>MISFIT := Some n1\<rparr>) wsyn wobs n d
           = call_adjoint T (PAR\<lparr>MISFIT := Some n2\<rparr>) wsyn wobs n d"
  using assms
  unfolding alias_groups_def call_misfit_def call_adjoint_def par_def
  by (elim disjE | simp)+

theorem alias_equivalence_witness:
  "call_misfit example_tools (example_params\<lparr>MISFIT := Some ''WAV''\<rparr>) [Finite 1, Finite 1] [Finite 3, Finite 4] 2 1
     = call_misfit example_tools (example_params\<lparr>MISFIT := Some ''waveform''\<rparr>) [Finite 1, Finite 1] [Finite 3, Finite 4] 2 1
   \<and> call_adjoint example_tools (example_params\<lparr>MISFIT := Some ''WAV''\<rparr>) [Finite 1, Finite 1] [Finite 3, Finite 4] 2 1
     = call_adjoint example_tools (example_params\<lparr>MISFIT := Some ''waveform''\<rparr>) [Finite 1, Finite 1] [Finite 3, Finite 4] 2 1"
proof -
  have a: "[''waveform'', ''wav'', ''wdiff''] \<in> set alias_groups"
    by (simp add: alias_groups_def)
  have b: "lower ''WAV'' \<in> set [''waveform'', ''wav'', ''wdiff'']"
    by (simp add: lower_examples)
  have c: "lower ''waveform'' \<in> set [''waveform'', ''wav'', ''wdiff'']"
    by (simp add: lower_examples)
  show ?thesis
    by (rule alias_equivalence [OF a b c])
qed

section \<open>Facts about check and check_headers\<close>

text \<open>
  C5. On a non-empty mapping the header reconciler returns exactly this: the first header,
  with its sample interval replaced by the configured one when one is configured (which
  changes it exactly when the two differ) and its sample count and receiver count as they
  were; and as output nothing for the sample interval, the warning for the sample count
  when one is configured and differs, then the warning for the receiver count when one is
  configured and differs.
\<close>

theorem check_headers_reconciles:
  assumes "headers \<noteq> []"
  shows "check_headers PAR headers =
           Inr ((snd (hd headers))\<lparr>dt := (case DT PAR of
                                             None \<Rightarrow> dt (snd (hd headers))
                                           | Some x \<Rightarrow> x)\<rparr>,
                (if NT PAR = None \<or> NT PAR = Some (nt (snd (hd headers))) then []
                 else [''Warning: h.nt != PAR.NT''])
                @ (if NREC PAR = None \<or> NREC PAR = Some (nr (snd (hd headers))) then []
                   else [''Warning: h.nr != PAR.NREC'']))"
proof -
  from assms obtain c h rest where hs: "headers = (c, h) # rest"
    by (cases headers) auto
  show ?thesis
    unfolding hs check_headers_def
    by (auto simp: Let_def split: option.splits)
qed

theorem check_headers_reconciles_witness:
  "check_headers (example_params\<lparr>DT := Some 2, NT := Some 20, NREC := Some 3\<rparr>)
      [(''x'', \<lparr>dt = 1, nt = 10, nr = 3\<rparr>), (''z'', \<lparr>dt = 1, nt = 10, nr = 3\<rparr>)]
     = Inr (\<lparr>dt = 2, nt = 10, nr = 3\<rparr>, [''Warning: h.nt != PAR.NT''])"
proof -
  have a: "[(''x'', \<lparr>dt = 1, nt = 10, nr = 3\<rparr>), (''z'', \<lparr>dt = 1, nt = 10, nr = 3\<rparr>)] \<noteq> []"
    by simp
  show ?thesis
    using check_headers_reconciles [OF a, of "example_params\<lparr>DT := Some 2, NT := Some 20, NREC := Some 3\<rparr>"]
    by (simp add: example_params_def)
qed

text \<open>
  C9, as the code has it. On an empty mapping the header reconciler fails, and the
  exception is the \<open>IndexError\<close> of \<open>headers.values()[0]\<close>.
\<close>

theorem check_headers_empty:
  "check_headers PAR [] = Inl IndexError"
  by (simp add: check_headers_def)

text \<open>
  C9, as stated, fails: the exception raised on the empty mapping is not one named
  \<open>EmptyInputError\<close>.
\<close>

theorem check_headers_empty_counterexample:
  "check_headers example_params [] = Inl IndexError
   \<and> error_name IndexError \<noteq> ''EmptyInputError''"
  by (simp add: check_headers_def)

text \<open>
  C6. A parameter object without \<open>FORMAT\<close>, or with \<open>FORMAT\<close> but without \<open>CHANNELS\<close>,
  makes \<open>check\<close> raise \<open>ParameterError\<close> for that key. With filtering enabled and both
  corner frequencies zero, the filter block raises \<open>ParameterError\<close> for \<open>BANDPASS\<close>, in
  \<open>process_traces\<close> and in the reverse pass alike, before any collaborator has run: the
  world is as it was.
\<close>

theorem configuration_errors:
  "(FORMAT PAR = None \<longrightarrow> fst (check PAR) = Inl (ParameterError ''FORMAT''))
   \<and> (FORMAT PAR \<noteq> None \<and> CHANNELS PAR = None
        \<longrightarrow> fst (check PAR) = Inl (ParameterError ''CHANNELS''))
   \<and> (BANDPASS PAR = Some True \<and> FREQLO PAR = Some 0 \<and> FREQHI PAR = Some 0
        \<longrightarrow> process_traces T PAR W s h = (Inl (ParameterError ''BANDPASS''), W)
          \<and> filter_stage T PAR flag W s h = (Inl (ParameterError ''BANDPASS''), W))"
  by (simp add: check_def Let_def process_traces_def filter_stage_def filter_block_def par_def)

theorem configuration_errors_witness:
  "fst (check (example_raw_params\<lparr>FORMAT := None\<rparr>)) = Inl (ParameterError ''FORMAT'')
   \<and> fst (check (example_raw_params\<lparr>CHANNELS := None\<rparr>)) = Inl (ParameterError ''CHANNELS'')
   \<and> process_traces example_tools (example_params\<lparr>BANDPASS := Some True\<rparr>) example_world 0
        example_header = (Inl (ParameterError ''BANDPASS''), example_world)
   \<and> filter_stage example_tools (example_params\<lparr>BANDPASS := Some True\<rparr>) (Some ''reverse'')
        example_world 0 example_header = (Inl (ParameterError ''BANDPASS''), example_world)"
  using configuration_errors [of "example_raw_params\<lparr>FORMAT := None\<rparr>"]
    configuration_errors [of "example_raw_params\<lparr>CHANNELS := None\<rparr>"]
    configuration_errors [of "example_params\<lparr>BANDPASS := Some True\<rparr>" example_tools
      example_world 0 example_header "Some ''reverse''"]
  by (simp add: example_raw_params_def example_params_def)

section \<open>Facts about process_traces\<close>

text \<open>
  C1, at the inputs where the code departs from it. With filtering enabled and only the
  low corner non-zero, \<open>process_traces\<close> raises \<open>ParameterError\<close> instead of high-pass
  filtering; with only the high corner non-zero it enters the high-pass branch (whose
  function is bound nowhere) instead of low-pass filtering.
\<close>

theorem filter_mode_one_corner:
  "process_traces T (PAR\<lparr>BANDPASS := Some True, FREQLO := Some 1, FREQHI := Some 0\<rparr>) W s h
     = (Inl (ParameterError ''BANDPASS''), W)
   \<and> process_traces T (PAR\<lparr>BANDPASS := Some True, FREQLO := Some 0, FREQHI := Some 1\<rparr>) W s h
     = (Inl (NameError ''shighpass''), W)"
  by (simp add: process_traces_def filter_stage_def filter_block_def par_def)

text \<open>
  C8, as the code has it. With filtering and muting both disabled, \<open>process_traces\<close>
  returns the array it was given and changes nothing.
\<close>

theorem process_traces_bypass:
  assumes "BANDPASS PAR = Some False" and "MUTE PAR = Some False"
  shows "process_traces T PAR W s h = (Inr s, W)"
  using assms
  by (simp add: process_traces_def filter_stage_def mute_stage_def par_def)

theorem process_traces_bypass_witness:
  "process_traces example_tools example_params example_world 0 example_header
     = (Inr 0, example_world)"
proof -
  have a: "BANDPASS example_params = Some False"
    by (simp add: example_params_def)
  have b: "MUTE example_params = Some False"
    by (simp add: example_params_def)
  show ?thesis
    by (rule process_traces_bypass [OF a b])
qed

text \<open>
  C8, as stated, fails: with filtering disabled but muting enabled, the mute stage still
  runs, and the output differs from the input.
\<close>

theorem process_traces_bypass_counterexample:
  "BANDPASS (example_params\<lparr>MUTE := Some True, MUTECONST := Some 1\<rparr>) = Some False
   \<and> fst (process_traces example_tools (example_params\<lparr>MUTE := Some True, MUTECONST := Some 1\<rparr>)
            example_world 0 example_header) = Inr 0
   \<and> arrays example_world 0 = [[Finite 1, Finite 1], [Finite 1, Finite 1], [Finite 1, Finite 1]]
   \<and> arrays (snd (process_traces example_tools
                     (example_params\<lparr>MUTE := Some True, MUTECONST := Some 1\<rparr>)
                     example_world 0 example_header)) 0
        = [[Finite 0, Finite 1], [Finite 0, Finite 1], [Finite 0, Finite 1]]"
  by (simp add: process_traces_def filter_stage_def mute_stage_def par_def example_params_def
      example_tools_def example_smute_def example_world_def example_header_def store_def)

section \<open>Facts about write_residuals\<close>

lemma call_misfit_defined:
  "MISFIT PAR = Some m \<Longrightarrow> \<exists>e. call_misfit T PAR a b n t = Inr e"
  by (simp add: call_misfit_def par_def Let_def)

lemma residuals_loop_result:
  assumes "MISFIT PAR = Some m"
    and "\<forall>i \<in> set ixs. i < length (arrays W s) \<and> i < length (arrays W d)"
  shows "\<exists>r. residuals_loop T PAR W s d h ixs r0 = Inr (r0 @ r) \<and> length r = length ixs
           \<and> (\<forall>k < length ixs. call_misfit T PAR (arrays W s ! (ixs ! k)) (arrays W d ! (ixs ! k)) (nt h) (dt h) = Inr (r ! k))"
  using assms(2)
proof (induction ixs arbitrary: r0)
  case Nil
  then show ?case by simp
next
  case (Cons i rest)
  obtain e where e: "call_misfit T PAR (arrays W s ! i) (arrays W d ! i) (nt h) (dt h) = Inr e"
    using call_misfit_defined [OF assms(1)] by blast
  from Cons.prems have rest: "\<forall>i \<in> set rest. i < length (arrays W s) \<and> i < length (arrays W d)"
    and i: "i < length (arrays W s)" "i < length (arrays W d)"
    by simp_all
  from Cons.IH [OF rest, of "r0 @ [e]"] obtain r where
    r: "residuals_loop T PAR W s d h rest (r0 @ [e]) = Inr ((r0 @ [e]) @ r)" "length r = length rest"
      "\<forall>k < length rest. call_misfit T PAR (arrays W s ! (rest ! k)) (arrays W d ! (rest ! k)) (nt h) (dt h) = Inr (r ! k)"
    by blast
  have "residuals_loop T PAR W s d h (i # rest) r0 = Inr (r0 @ (e # r))"
    using i e r(1) by (simp add: getcol_def)
  moreover have "length (e # r) = length (i # rest)"
    using r(2) by simp
  moreover have "\<forall>k < length (i # rest). call_misfit T PAR (arrays W s ! ((i # rest) ! k)) (arrays W d ! ((i # rest) ! k)) (nt h) (dt h) = Inr ((e # r) ! k)"
    using e r(3) by (auto simp: nth_Cons split: nat.splits)
  ultimately show ?case by blast
qed

text \<open>
  C4. With the misfit name set, a header of \<open>n\<close> receivers and matrices of \<open>n\<close> columns,
  \<open>write_residuals\<close> returns a vector of exactly \<open>n\<close> entries (and writes it to the file
  \<open>residuals\<close>); entry \<open>i\<close> is the misfit wrapper applied to column \<open>i\<close> of the synthetic
  matrix and column \<open>i\<close> of the observed matrix, with the header's \<open>nt\<close> and \<open>dt\<close>.
\<close>

theorem residual_alignment:
  assumes "MISFIT PAR = Some m" and "nr h = int n"
    and "length (arrays W s) = n" and "length (arrays W d) = n"
  shows "\<exists>r. write_residuals T PAR W s d h = (Inr r, W\<lparr>files := (files W)(''residuals'' \<mapsto> r)\<rparr>)
           \<and> length r = n
           \<and> (\<forall>i < n. call_misfit T PAR (arrays W s ! i) (arrays W d ! i) (nt h) (dt h) = Inr (r ! i))"
proof -
  have ix: "\<forall>i \<in> set [0..<n]. i < length (arrays W s) \<and> i < length (arrays W d)"
    using assms(3,4) by simp
  from residuals_loop_result [OF assms(1) ix, of T h "[]"] obtain r where
    r: "residuals_loop T PAR W s d h [0..<n] [] = Inr r" "length r = n"
      "\<forall>k < n. call_misfit T PAR (arrays W s ! ([0..<n] ! k)) (arrays W d ! ([0..<n] ! k)) (nt h) (dt h) = Inr (r ! k)"
    by auto
  have "write_residuals T PAR W s d h = (Inr r, W\<lparr>files := (files W)(''residuals'' \<mapsto> r)\<rparr>)"
    using r(1) assms(2) by (simp add: write_residuals_def)
  moreover have "\<forall>i < n. call_misfit T PAR (arrays W s ! i) (arrays W d ! i) (nt h) (dt h) = Inr (r ! i)"
    using r(3) by simp
  ultimately show ?thesis using r(2) by blast
qed

theorem residual_alignment_witness:
  "\<exists>r. write_residuals example_tools example_params example_world 0 1 example_header
          = (Inr r, example_world\<lparr>files := (files example_world)(''residuals'' \<mapsto> r)\<rparr>)
       \<and> length r = 3 \<and> r ! 0 = Finite 13"
proof -
  have a: "MISFIT example_params = Some ''wav''"
    by (simp add: example_params_def)
  have b: "nr example_header = int 3"
    by (simp add: example_header_def)
  have c: "length (arrays example_world 0) = 3" and d: "length (arrays example_world 1) = 3"
    by (simp_all add: example_world_def)
  have e: "call_misfit example_tools example_params (arrays example_world 0 ! 0)
             (arrays example_world 1 ! 0) (nt example_header) (dt example_header) = Inr (Finite 13)"
    by (simp add: call_misfit_def par_def example_params_def lower_def lower_char_def
        example_tools_def example_misfit_wdiff_def example_norm_def example_world_def
        example_header_def)
  from residual_alignment [OF a b c d, of example_tools] obtain r where
    r: "write_residuals example_tools example_params example_world 0 1 example_header
          = (Inr r, example_world\<lparr>files := (files example_world)(''residuals'' \<mapsto> r)\<rparr>)"
      "length r = 3"
      "\<forall>i < 3. call_misfit example_tools example_params (arrays example_world 0 ! i)
          (arrays example_world 1 ! i) (nt example_header) (dt example_header) = Inr (r ! i)"
    by blast
  from r(3) e have "r ! 0 = Finite 13"
    by simp
  with r(1,2) show ?thesis
    by blast
qed

section \<open>Facts about generate_adjoint_traces\<close>

lemma arrays_store: "arrays (store W a m) b = (if b = a then m else arrays W b)"
  by (simp add: store_def)

lemma files_store: "files (store W a m) = files W"
  by (simp add: store_def)

lemma normalize_loop_frame:
  "a \<noteq> s \<Longrightarrow> arrays (snd (normalize_loop NP s d ixs W)) a = arrays W a"
  by (induction ixs arbitrary: W) (auto simp: getcol_def Let_def arrays_store)

lemma normalize_loop_cols:
  assumes "distinct ixs"
    and "\<forall>i \<in> set ixs. i < length (arrays W s) \<and> i < length (arrays W d)"
  shows "\<exists>W'. normalize_loop NP s d ixs W = (Inr (), W')
           \<and> length (arrays W' s) = length (arrays W s)
           \<and> (\<forall>j < length (arrays W s). arrays W' s ! j =
                 (if j \<in> set ixs \<and> positive (linalg_norm NP (arrays W d ! j))
                  then map (\<lambda>x. true_divide NP x (linalg_norm NP (arrays W d ! j))) (arrays W s ! j)
                  else arrays W s ! j))"
  using assms
proof (induction ixs arbitrary: W)
  case Nil
  then show ?case by simp
next
  case (Cons i rest)
  from Cons.prems have i: "i < length (arrays W s)" "i < length (arrays W d)" "i \<notin> set rest"
    and dist: "distinct rest"
    and rest: "\<forall>k \<in> set rest. k < length (arrays W s) \<and> k < length (arrays W d)"
    by simp_all
  show ?case
  proof (cases "positive (linalg_norm NP (arrays W d ! i))")
    case False
    from Cons.IH [OF dist rest] obtain W' where
      W': "normalize_loop NP s d rest W = (Inr (), W')" "length (arrays W' s) = length (arrays W s)"
        "\<forall>j < length (arrays W s). arrays W' s ! j =
                 (if j \<in> set rest \<and> positive (linalg_norm NP (arrays W d ! j))
                  then map (\<lambda>x. true_divide NP x (linalg_norm NP (arrays W d ! j))) (arrays W s ! j)
                  else arrays W s ! j)"
      by blast
    have "normalize_loop NP s d (i # rest) W = (Inr (), W')"
      using False i W'(1) by (simp add: getcol_def)
    moreover have "\<forall>j < length (arrays W s). arrays W' s ! j =
                 (if j \<in> set (i # rest) \<and> positive (linalg_norm NP (arrays W d ! j))
                  then map (\<lambda>x. true_divide NP x (linalg_norm NP (arrays W d ! j))) (arrays W s ! j)
                  else arrays W s ! j)"
      using W'(3) False by auto
    ultimately show ?thesis using W'(2) by blast
  next
    case True
    define w where "w = linalg_norm NP (arrays W d ! i)"
    define W1 where "W1 = store W s ((arrays W s)[i := map (\<lambda>x. true_divide NP x w) (arrays W s ! i)])"
    have len1: "length (arrays W1 s) = length (arrays W s)"
      by (simp add: W1_def arrays_store)
    have lend: "length (arrays W1 d) = length (arrays W d)"
      by (simp add: W1_def arrays_store)
    have s1: "\<And>j. j \<noteq> i \<Longrightarrow> arrays W1 s ! j = arrays W s ! j"
      by (simp add: W1_def arrays_store)
    have d1: "\<And>j. j \<noteq> i \<Longrightarrow> arrays W1 d ! j = arrays W d ! j"
      by (simp add: W1_def arrays_store)
    have si: "arrays W1 s ! i = map (\<lambda>x. true_divide NP x w) (arrays W s ! i)"
      using i(1) by (simp add: W1_def arrays_store)
    have rest1: "\<forall>k \<in> set rest. k < length (arrays W1 s) \<and> k < length (arrays W1 d)"
      using rest len1 lend by simp
    from Cons.IH [OF dist rest1] obtain W' where
      W': "normalize_loop NP s d rest W1 = (Inr (), W')" "length (arrays W' s) = length (arrays W1 s)"
        "\<forall>j < length (arrays W1 s). arrays W' s ! j =
                 (if j \<in> set rest \<and> positive (linalg_norm NP (arrays W1 d ! j))
                  then map (\<lambda>x. true_divide NP x (linalg_norm NP (arrays W1 d ! j))) (arrays W1 s ! j)
                  else arrays W1 s ! j)"
      by blast
    have "normalize_loop NP s d (i # rest) W = (Inr (), W')"
      using True i W'(1) by (simp add: getcol_def w_def W1_def)
    moreover have "length (arrays W' s) = length (arrays W s)"
      using W'(2) len1 by simp
    moreover have "\<forall>j < length (arrays W s). arrays W' s ! j =
                 (if j \<in> set (i # rest) \<and> positive (linalg_norm NP (arrays W d ! j))
                  then map (\<lambda>x. true_divide NP x (linalg_norm NP (arrays W d ! j))) (arrays W s ! j)
                  else arrays W s ! j)"
    proof (intro allI impI)
      fix j assume j: "j < length (arrays W s)"
      show "arrays W' s ! j =
                 (if j \<in> set (i # rest) \<and> positive (linalg_norm NP (arrays W d ! j))
                  then map (\<lambda>x. true_divide NP x (linalg_norm NP (arrays W d ! j))) (arrays W s ! j)
                  else arrays W s ! j)"
      proof (cases "j = i")
        case True
        then have "arrays W' s ! j = arrays W1 s ! i"
          using W'(3) j len1 i(3) by simp
        then show ?thesis
          using si True \<open>positive (linalg_norm NP (arrays W d ! i))\<close> by (simp add: w_def)
      next
        case False
        then show ?thesis
          using W'(3) j len1 s1 d1 by simp
      qed
    qed
    ultimately show ?thesis by blast
  qed
qed

lemma example_norms:
  "example_norm [Finite 3, Finite 4] = Finite 5"
  "example_norm [Finite 0, Finite 0] = Finite 0"
  "example_norm [Finite 2, Finite 0] = Finite 2"
  "example_norm [NaN, Finite 1] = NaN"
  "example_norm [Finite 0, Finite 2] = Finite 2"
proof -
  have "sqrt 25 = 5" by (rule real_sqrt_unique) simp_all
  then show "example_norm [Finite 3, Finite 4] = Finite 5" by (simp add: example_norm_def)
  show "example_norm [Finite 0, Finite 0] = Finite 0" by (simp add: example_norm_def)
  show "example_norm [Finite 2, Finite 0] = Finite 2" by (simp add: example_norm_def)
  show "example_norm [NaN, Finite 1] = NaN" by (simp add: example_norm_def)
  show "example_norm [Finite 0, Finite 2] = Finite 2" by (simp add: example_norm_def)
qed

lemma example_adjoint_loop:
  "fst (adjoint_loop example_tools example_params 0 1 example_header [0..<nat (nr example_header)] example_world) = Inr ()"
  "arrays (snd (adjoint_loop example_tools example_params 0 1 example_header [0..<nat (nr example_header)] example_world)) 0
     = [[Finite (- 2), Finite (- 3)], [Finite 1, Finite 1], [Finite (- 1), Finite 1]]"
  "arrays (snd (adjoint_loop example_tools example_params 0 1 example_header [0..<nat (nr example_header)] example_world)) 1
     = [[Finite 3, Finite 4], [Finite 0, Finite 0], [Finite 2, Finite 0]]"
  by (simp_all add: example_header_def example_world_def upt_rec getcol_def setcol_def broadcast_def store_def
      call_adjoint_def par_def example_params_def lower_def lower_char_def example_tools_def)

lemma nan_adjoint_loop:
  "fst (adjoint_loop example_tools example_params 0 1 nan_header [0..<nat (nr nan_header)] nan_world) = Inr ()"
  "arrays (snd (adjoint_loop example_tools example_params 0 1 nan_header [0..<nat (nr nan_header)] nan_world)) 0
     = [[NaN, Finite 2], [Finite 1, Finite 1]]"
  "arrays (snd (adjoint_loop example_tools example_params 0 1 nan_header [0..<nat (nr nan_header)] nan_world)) 1
     = [[NaN, Finite 1], [Finite 0, Finite 2]]"
  by (simp_all add: nan_header_def nan_world_def upt_rec getcol_def setcol_def broadcast_def store_def
      call_adjoint_def par_def example_params_def lower_def lower_char_def example_tools_def)

text \<open>
  C3, as the code has it. Let the adjoint loop and the reverse filter pass have run
  without an exception, leaving the adjoint matrix at \<open>s2\<close> in the world \<open>W2\<close>, with
  normalization enabled and both matrices at least \<open>nr\<close> columns wide. Then
  \<open>generate_adjoint_traces\<close> returns without an exception, and for every receiver \<open>ir\<close>:
  when the norm numpy computes for the observed trace is greater than zero, the adjoint
  trace is that of before the normalization step with every sample divided by the norm;
  otherwise (the norm is zero, or NaN) it is what it was before the normalization step.
\<close>

theorem normalization_guard:
  assumes "adjoint_loop T PAR s d h [0..<nat (nr h)] W = (Inr (), W1)"
    and "filter_stage T PAR (Some ''reverse'') W1 s h = (Inr s2, W2)"
    and "NORMALIZE PAR = Some True"
    and "nat (nr h) \<le> length (arrays W2 s2)" and "nat (nr h) \<le> length (arrays W2 d)"
    and "ir < nat (nr h)"
  shows "\<exists>W3. generate_adjoint_traces NP T PAR W s d h = (Inr s2, W3)
           \<and> arrays W3 s2 ! ir =
               (if positive (linalg_norm NP (arrays W2 d ! ir))
                then map (\<lambda>x. true_divide NP x (linalg_norm NP (arrays W2 d ! ir)))
                       (arrays W2 s2 ! ir)
                else arrays W2 s2 ! ir)"
proof -
  have ix: "\<forall>i \<in> set [0..<nat (nr h)]. i < length (arrays W2 s2) \<and> i < length (arrays W2 d)"
    using assms(4,5) by simp
  from normalize_loop_cols [OF distinct_upt ix, of NP] obtain W3 where
    W3: "normalize_loop NP s2 d [0..<nat (nr h)] W2 = (Inr (), W3)"
      "\<forall>j < length (arrays W2 s2). arrays W3 s2 ! j =
                 (if j \<in> set [0..<nat (nr h)] \<and> positive (linalg_norm NP (arrays W2 d ! j))
                  then map (\<lambda>x. true_divide NP x (linalg_norm NP (arrays W2 d ! j))) (arrays W2 s2 ! j)
                  else arrays W2 s2 ! j)"
    by blast
  have "generate_adjoint_traces NP T PAR W s d h = (Inr s2, W3)"
    using assms(1,2,3) W3(1)
    by (simp add: generate_adjoint_traces_def normalize_stage_def par_def)
  moreover have "arrays W3 s2 ! ir =
               (if positive (linalg_norm NP (arrays W2 d ! ir))
                then map (\<lambda>x. true_divide NP x (linalg_norm NP (arrays W2 d ! ir)))
                       (arrays W2 s2 ! ir)
                else arrays W2 s2 ! ir)"
    using W3(2) assms(4,6) by auto
  ultimately show ?thesis by blast
qed

theorem normalization_guard_witness:
  "fst (generate_adjoint_traces example_numpy example_tools example_params example_world 0 1
          example_header) = Inr 0
   \<and> arrays (snd (generate_adjoint_traces example_numpy example_tools example_params
                     example_world 0 1 example_header)) 0 ! 1 = [Finite 1, Finite 1]
   \<and> arrays (snd (generate_adjoint_traces example_numpy example_tools example_params
                     example_world 0 1 example_header)) 0 ! 0 = [Finite (- 2 / 5), Finite (- 3 / 5)]"
proof -
  define W1 where "W1 = snd (adjoint_loop example_tools example_params 0 1 example_header
                               [0..<nat (nr example_header)] example_world)"
  have a: "adjoint_loop example_tools example_params 0 1 example_header
             [0..<nat (nr example_header)] example_world = (Inr (), W1)"
    using example_adjoint_loop(1) by (simp add: W1_def prod_eq_iff)
  have b: "filter_stage example_tools example_params (Some ''reverse'') W1 0 example_header = (Inr 0, W1)"
    by (simp add: filter_stage_def par_def example_params_def)
  have c: "NORMALIZE example_params = Some True"
    by (simp add: example_params_def)
  have s1: "arrays W1 0 = [[Finite (- 2), Finite (- 3)], [Finite 1, Finite 1], [Finite (- 1), Finite 1]]"
    and d1: "arrays W1 1 = [[Finite 3, Finite 4], [Finite 0, Finite 0], [Finite 2, Finite 0]]"
    using example_adjoint_loop(2,3) by (simp_all add: W1_def)
  have d: "nat (nr example_header) \<le> length (arrays W1 0)"
    and e: "nat (nr example_header) \<le> length (arrays W1 1)"
    using s1 d1 by (simp_all add: example_header_def)
  have f0: "0 < nat (nr example_header)" and f1: "1 < nat (nr example_header)"
    by (simp_all add: example_header_def)
  show ?thesis
    using normalization_guard [OF a b c d e f0, of example_numpy]
      normalization_guard [OF a b c d e f1, of example_numpy] s1 d1
    by (auto simp: example_numpy_def example_norms)
qed

lemma nan_run:
  "fst (generate_adjoint_traces example_numpy example_tools example_params nan_world 0 1 nan_header) = Inr 0"
  "arrays (snd (generate_adjoint_traces example_numpy example_tools example_params nan_world 0 1 nan_header)) 0
     = [[NaN, Finite 2], [Finite (1 / 2), Finite (1 / 2)]]"
  by (simp_all add: generate_adjoint_traces_def normalize_stage_def filter_stage_def
      nan_header_def nan_world_def upt_rec getcol_def setcol_def broadcast_def store_def
      call_adjoint_def par_def example_params_def lower_def lower_char_def example_tools_def
      example_numpy_def example_norms Let_def)

text \<open>
  C3, as stated, fails: an observed trace that holds a NaN has the norm NaN, which is not
  zero, yet \<open>w > 0\<close> is false for it and the adjoint trace is left undivided.
\<close>

theorem normalization_guard_counterexample:
  "NORMALIZE example_params = Some True
   \<and> linalg_norm example_numpy (arrays nan_world 1 ! 0) = NaN
   \<and> NaN \<noteq> Finite 0
   \<and> fst (generate_adjoint_traces example_numpy example_tools example_params nan_world 0 1
            nan_header) = Inr 0
   \<and> arrays (snd (adjoint_loop example_tools example_params 0 1 nan_header
                     [0..<nat (nr nan_header)] nan_world)) 0 ! 0 = [NaN, Finite 2]
   \<and> arrays (snd (generate_adjoint_traces example_numpy example_tools example_params nan_world
                     0 1 nan_header)) 0 ! 0 = [NaN, Finite 2]
   \<and> map (\<lambda>x. true_divide example_numpy x NaN) [NaN, Finite 2] = [NaN, NaN]"
  using nan_run nan_adjoint_loop
  by (simp add: example_params_def example_numpy_def nan_world_def example_norms)

subsection \<open>What the calls change\<close>

lemma adjoint_loop_frame:
  "a \<noteq> s \<Longrightarrow> arrays (snd (adjoint_loop T PAR s d h ixs W)) a = arrays W a"
  by (induction ixs arbitrary: W) (auto simp: arrays_store split: sum.splits)

lemma adjoint_loop_cols:
  assumes "distinct ixs"
    and "adjoint_loop T PAR s d h ixs W = (Inr (), W1)"
  shows "length (arrays W1 s) = length (arrays W s)
         \<and> (\<forall>j < length (arrays W s). j \<notin> set ixs \<longrightarrow> arrays W1 s ! j = arrays W s ! j)
         \<and> (\<forall>i \<in> set ixs. i < length (arrays W s) \<and> i < length (arrays W d)
               \<and> (\<exists>w c. call_adjoint T PAR (arrays W s ! i) (arrays W d ! i) (nt h) (dt h) = Inr w
                     \<and> broadcast (length (arrays W s ! i)) w = Inr c
                     \<and> arrays W1 s ! i = c))"
  using assms
proof (induction ixs arbitrary: W)
  case Nil
  then show ?case by simp
next
  case (Cons i rest)
  from Cons.prems(2) have i: "i < length (arrays W s)" "i < length (arrays W d)"
    by (auto simp: getcol_def split: if_splits)
  from Cons.prems(2) i obtain w where
    w: "call_adjoint T PAR (arrays W s ! i) (arrays W d ! i) (nt h) (dt h) = Inr w"
    by (cases "call_adjoint T PAR (arrays W s ! i) (arrays W d ! i) (nt h) (dt h)")
       (auto simp: getcol_def)
  from Cons.prems(2) i w obtain c where
    c: "broadcast (length (arrays W s ! i)) w = Inr c"
    by (cases "broadcast (length (arrays W s ! i)) w") (auto simp: getcol_def setcol_def)
  define W' where "W' = store W s ((arrays W s)[i := c])"
  have run: "adjoint_loop T PAR s d h rest W' = (Inr (), W1)"
    using Cons.prems(2) i w c by (simp add: getcol_def setcol_def W'_def)
  from Cons.prems(1) have dist: "distinct rest" and inot: "i \<notin> set rest"
    by simp_all
  have len': "length (arrays W' s) = length (arrays W s)"
    and lend': "length (arrays W' d) = length (arrays W d)"
    by (simp_all add: W'_def arrays_store)
  have s': "\<And>j. j \<noteq> i \<Longrightarrow> arrays W' s ! j = arrays W s ! j"
    and d': "\<And>j. j \<noteq> i \<Longrightarrow> arrays W' d ! j = arrays W d ! j"
    by (simp_all add: W'_def arrays_store)
  have si: "arrays W' s ! i = c"
    using i(1) by (simp add: W'_def arrays_store)
  note IH = Cons.IH [OF dist run]
  have "length (arrays W1 s) = length (arrays W s)"
    using IH len' by simp
  moreover have "\<forall>j < length (arrays W s). j \<notin> set (i # rest) \<longrightarrow> arrays W1 s ! j = arrays W s ! j"
    using IH len' s' by simp
  moreover have "\<forall>k \<in> set (i # rest). k < length (arrays W s) \<and> k < length (arrays W d)
               \<and> (\<exists>w c. call_adjoint T PAR (arrays W s ! k) (arrays W d ! k) (nt h) (dt h) = Inr w
                     \<and> broadcast (length (arrays W s ! k)) w = Inr c
                     \<and> arrays W1 s ! k = c)"
  proof
    fix k assume k: "k \<in> set (i # rest)"
    show "k < length (arrays W s) \<and> k < length (arrays W d)
               \<and> (\<exists>w c. call_adjoint T PAR (arrays W s ! k) (arrays W d ! k) (nt h) (dt h) = Inr w
                     \<and> broadcast (length (arrays W s ! k)) w = Inr c
                     \<and> arrays W1 s ! k = c)"
    proof (cases "k = i")
      case True
      have "arrays W1 s ! i = arrays W' s ! i"
        using IH i(1) inot len' by simp
      then show ?thesis
        using True i w c si by simp
    next
      case False
      with k have "k \<in> set rest" by simp
      with IH have "k < length (arrays W' s) \<and> k < length (arrays W' d)
               \<and> (\<exists>w c. call_adjoint T PAR (arrays W' s ! k) (arrays W' d ! k) (nt h) (dt h) = Inr w
                     \<and> broadcast (length (arrays W' s ! k)) w = Inr c
                     \<and> arrays W1 s ! k = c)"
        by blast
      then show ?thesis
        using False len' lend' s' d' by simp
    qed
  qed
  ultimately show ?case by blast
qed

lemma filter_stage_frame:
  assumes "\<forall>W' lo hi. fst (sbandpass T W' s h lo hi flag) \<noteq> d
                     \<and> arrays (snd (sbandpass T W' s h lo hi flag)) d = arrays W' d"
    and "s \<noteq> d"
  shows "arrays (snd (filter_stage T PAR flag W s h)) d = arrays W d
         \<and> (\<forall>a. fst (filter_stage T PAR flag W s h) = Inr a \<longrightarrow> a \<noteq> d)"
proof -
  have k: "\<And>W' lo hi a W''. sbandpass T W' s h lo hi flag = (a, W'')
             \<Longrightarrow> a \<noteq> d \<and> arrays W'' d = arrays W' d"
    using assms(1) by (metis fst_conv snd_conv)
  show ?thesis
    using assms(2)
    by (auto simp: filter_stage_def filter_block_def par_def split: option.splits prod.splits
        dest: k)
qed

lemma normalize_stage_frame:
  "s \<noteq> d \<Longrightarrow> arrays (snd (normalize_stage NP PAR W s d h)) d = arrays W d"
  using normalize_loop_frame [of d s NP d "[0..<nat (nr h)]" W]
  by (auto simp: normalize_stage_def par_def split: option.splits prod.splits sum.splits)

lemma write_residuals_arrays:
  "arrays (snd (write_residuals T PAR W s d h)) = arrays W"
  by (simp add: write_residuals_def split: sum.splits)

lemma normalize_stage_returns:
  "normalize_stage NP PAR W s d h = (Inr a, W') \<Longrightarrow> a = s"
  by (auto simp: normalize_stage_def par_def split: option.splits if_splits prod.splits sum.splits)

lemma generate_adjoint_traces_stages:
  assumes "generate_adjoint_traces NP T PAR W s d h = (Inr a, W3)"
  shows "\<exists>W1 W2. adjoint_loop T PAR s d h [0..<nat (nr h)] W = (Inr (), W1)
           \<and> filter_stage T PAR (Some ''reverse'') W1 s h = (Inr a, W2)
           \<and> normalize_stage NP PAR W2 a d h = (Inr a, W3)"
proof -
  obtain r1 W1 where l: "adjoint_loop T PAR s d h [0..<nat (nr h)] W = (r1, W1)"
    by (cases "adjoint_loop T PAR s d h [0..<nat (nr h)] W")
  obtain r2 W2 where f: "filter_stage T PAR (Some ''reverse'') W1 s h = (r2, W2)"
    by (cases "filter_stage T PAR (Some ''reverse'') W1 s h")
  from assms l have r1: "r1 = Inr ()"
    by (cases r1) (simp_all add: generate_adjoint_traces_def)
  from assms l r1 f obtain s2 where r2: "r2 = Inr s2"
    by (cases r2) (simp_all add: generate_adjoint_traces_def)
  from assms l r1 f r2 have n: "normalize_stage NP PAR W2 s2 d h = (Inr a, W3)"
    by (simp add: generate_adjoint_traces_def)
  then have "a = s2"
    by (rule normalize_stage_returns)
  with l r1 f r2 n show ?thesis
    by blast
qed

lemma normalize_stage_cols:
  assumes "normalize_stage NP PAR W s d h = (Inr a, W')"
    and "s \<noteq> d"
    and "\<forall>i < nat (nr h). i < length (arrays W s) \<and> i < length (arrays W d)"
  shows "(\<forall>b. b \<noteq> s \<longrightarrow> arrays W' b = arrays W b)
         \<and> (\<forall>i < nat (nr h). arrays W' s ! i =
               (if NORMALIZE PAR = Some True \<and> positive (linalg_norm NP (arrays W d ! i))
                then map (\<lambda>x. true_divide NP x (linalg_norm NP (arrays W d ! i))) (arrays W s ! i)
                else arrays W s ! i))"
proof (cases "NORMALIZE PAR = Some True")
  case False
  with assms(1) have "W' = W"
    by (auto simp: normalize_stage_def par_def split: option.splits if_splits)
  with False show ?thesis by simp
next
  case True
  have ix: "\<forall>i \<in> set [0..<nat (nr h)]. i < length (arrays W s) \<and> i < length (arrays W d)"
    using assms(3) by simp
  from normalize_loop_cols [OF distinct_upt ix, of NP] obtain W3 where
    W3: "normalize_loop NP s d [0..<nat (nr h)] W = (Inr (), W3)"
      "\<forall>j < length (arrays W s). arrays W3 s ! j =
                 (if j \<in> set [0..<nat (nr h)] \<and> positive (linalg_norm NP (arrays W d ! j))
                  then map (\<lambda>x. true_divide NP x (linalg_norm NP (arrays W d ! j))) (arrays W s ! j)
                  else arrays W s ! j)"
    by blast
  from assms(1) True W3(1) have W': "W' = W3"
    by (simp add: normalize_stage_def par_def)
  have frame: "\<forall>b. b \<noteq> s \<longrightarrow> arrays W' b = arrays W b"
    using normalize_loop_frame [of _ s NP d "[0..<nat (nr h)]" W] W3(1) W' by simp
  have "\<forall>i < nat (nr h). arrays W' s ! i =
               (if NORMALIZE PAR = Some True \<and> positive (linalg_norm NP (arrays W d ! i))
                then map (\<lambda>x. true_divide NP x (linalg_norm NP (arrays W d ! i))) (arrays W s ! i)
                else arrays W s ! i)"
    using W3(2) W' True assms(3) by simp
  with frame show ?thesis by blast
qed

lemma generate_adjoint_traces_unfiltered:
  assumes "BANDPASS PAR = Some False" and "s \<noteq> d"
    and "generate_adjoint_traces NP T PAR W s d h = (Inr a, W3)"
  shows "a = s
         \<and> (\<forall>b. b \<noteq> s \<longrightarrow> arrays W3 b = arrays W b)
         \<and> (\<forall>i < nat (nr h). \<exists>w c.
               call_adjoint T PAR (arrays W s ! i) (arrays W d ! i) (nt h) (dt h) = Inr w
               \<and> broadcast (length (arrays W s ! i)) w = Inr c
               \<and> arrays W3 s ! i =
                   (if NORMALIZE PAR = Some True \<and> positive (linalg_norm NP (arrays W d ! i))
                    then map (\<lambda>x. true_divide NP x (linalg_norm NP (arrays W d ! i))) c
                    else c))"
proof -
  from generate_adjoint_traces_stages [OF assms(3)] obtain W1 W2 where
    l: "adjoint_loop T PAR s d h [0..<nat (nr h)] W = (Inr (), W1)"
    and f: "filter_stage T PAR (Some ''reverse'') W1 s h = (Inr a, W2)"
    and n: "normalize_stage NP PAR W2 a d h = (Inr a, W3)"
    by blast
  from f assms(1) have a: "a = s" and W2: "W2 = W1"
    by (simp_all add: filter_stage_def par_def)
  note cols = adjoint_loop_cols [OF distinct_upt l]
  have len: "length (arrays W1 s) = length (arrays W s)"
    using cols by blast
  have d1: "arrays W1 d = arrays W d"
    using adjoint_loop_frame [of d s T PAR d h "[0..<nat (nr h)]" W] assms(2) l by simp
  have other: "\<forall>b. b \<noteq> s \<longrightarrow> arrays W1 b = arrays W b"
    using adjoint_loop_frame [of _ s T PAR d h "[0..<nat (nr h)]" W] l by simp
  have bounds: "\<forall>i < nat (nr h). i < length (arrays W1 s) \<and> i < length (arrays W1 d)"
    using cols len d1 by simp
  from normalize_stage_cols [OF n [unfolded a W2] assms(2) bounds]
  have frame: "\<forall>b. b \<noteq> s \<longrightarrow> arrays W3 b = arrays W1 b"
    and ncols: "\<forall>i < nat (nr h). arrays W3 s ! i =
               (if NORMALIZE PAR = Some True \<and> positive (linalg_norm NP (arrays W1 d ! i))
                then map (\<lambda>x. true_divide NP x (linalg_norm NP (arrays W1 d ! i))) (arrays W1 s ! i)
                else arrays W1 s ! i)"
    by blast+
  have "\<forall>i < nat (nr h). \<exists>w c.
               call_adjoint T PAR (arrays W s ! i) (arrays W d ! i) (nt h) (dt h) = Inr w
               \<and> broadcast (length (arrays W s ! i)) w = Inr c
               \<and> arrays W3 s ! i =
                   (if NORMALIZE PAR = Some True \<and> positive (linalg_norm NP (arrays W d ! i))
                    then map (\<lambda>x. true_divide NP x (linalg_norm NP (arrays W d ! i))) c
                    else c)"
  proof (intro allI impI)
    fix i assume i: "i < nat (nr h)"
    then have "i \<in> set [0..<nat (nr h)]"
      by simp
    with cols have "\<exists>w c. call_adjoint T PAR (arrays W s ! i) (arrays W d ! i) (nt h) (dt h) = Inr w
                     \<and> broadcast (length (arrays W s ! i)) w = Inr c
                     \<and> arrays W1 s ! i = c"
      by blast
    then obtain w c where
      wc: "call_adjoint T PAR (arrays W s ! i) (arrays W d ! i) (nt h) (dt h) = Inr w"
        "broadcast (length (arrays W s ! i)) w = Inr c" "arrays W1 s ! i = c"
      by blast
    from ncols i have "arrays W3 s ! i =
               (if NORMALIZE PAR = Some True \<and> positive (linalg_norm NP (arrays W1 d ! i))
                then map (\<lambda>x. true_divide NP x (linalg_norm NP (arrays W1 d ! i))) (arrays W1 s ! i)
                else arrays W1 s ! i)"
      by blast
    with wc d1 show "\<exists>w c.
               call_adjoint T PAR (arrays W s ! i) (arrays W d ! i) (nt h) (dt h) = Inr w
               \<and> broadcast (length (arrays W s ! i)) w = Inr c
               \<and> arrays W3 s ! i =
                   (if NORMALIZE PAR = Some True \<and> positive (linalg_norm NP (arrays W d ! i))
                    then map (\<lambda>x. true_divide NP x (linalg_norm NP (arrays W d ! i))) c
                    else c)"
      by auto
  qed
  moreover have "\<forall>b. b \<noteq> s \<longrightarrow> arrays W3 b = arrays W b"
    using frame other by simp
  ultimately show ?thesis using a by blast
qed

lemma filter_stage_off_frame:
  "BANDPASS PAR \<noteq> Some True \<Longrightarrow> s \<noteq> d \<Longrightarrow>
     arrays (snd (filter_stage T PAR flag W s h)) d = arrays W d
     \<and> (\<forall>a. fst (filter_stage T PAR flag W s h) = Inr a \<longrightarrow> a \<noteq> d)"
  by (auto simp: filter_stage_def par_def split: option.splits)

lemma generate_adjoint_traces_keeps:
  assumes "s \<noteq> d"
    and "BANDPASS PAR \<noteq> Some True
         \<or> (\<forall>W' lo hi. fst (sbandpass T W' s h lo hi (Some ''reverse'')) \<noteq> d
              \<and> arrays (snd (sbandpass T W' s h lo hi (Some ''reverse''))) d = arrays W' d)"
  shows "arrays (snd (generate_adjoint_traces NP T PAR W s d h)) d = arrays W d"
proof -
  have fs: "\<And>W1. arrays (snd (filter_stage T PAR (Some ''reverse'') W1 s h)) d = arrays W1 d
                \<and> (\<forall>a. fst (filter_stage T PAR (Some ''reverse'') W1 s h) = Inr a \<longrightarrow> a \<noteq> d)"
    using assms filter_stage_frame [of T s h "Some ''reverse''" d PAR]
      filter_stage_off_frame [of PAR s d T "Some ''reverse''" _ h]
    by blast
  obtain r1 W1 where l: "adjoint_loop T PAR s d h [0..<nat (nr h)] W = (r1, W1)"
    by (cases "adjoint_loop T PAR s d h [0..<nat (nr h)] W")
  have d1: "arrays W1 d = arrays W d"
    using adjoint_loop_frame [of d s T PAR d h "[0..<nat (nr h)]" W] assms(1) l by simp
  show ?thesis
  proof (cases r1)
    case (Inl e)
    then show ?thesis using l d1 by (simp add: generate_adjoint_traces_def)
  next
    case (Inr u)
    obtain r2 W2 where f: "filter_stage T PAR (Some ''reverse'') W1 s h = (r2, W2)"
      by (cases "filter_stage T PAR (Some ''reverse'') W1 s h")
    have d2: "arrays W2 d = arrays W1 d" and ne: "\<And>a. r2 = Inr a \<Longrightarrow> a \<noteq> d"
      using fs [of W1] f by simp_all
    show ?thesis
    proof (cases r2)
      case (Inl e)
      then show ?thesis using l Inr f d1 d2 by (simp add: generate_adjoint_traces_def)
    next
      case (Inr s2)
      then have "s2 \<noteq> d" using ne by simp
      then have "arrays (snd (normalize_stage NP PAR W2 s2 d h)) d = arrays W2 d"
        by (rule normalize_stage_frame)
      then show ?thesis
        using l \<open>r1 = Inr u\<close> f Inr d1 d2 by (simp add: generate_adjoint_traces_def)
    qed
  qed
qed

lemma example_run:
  "fst (generate_adjoint_traces example_numpy example_tools example_params example_world 0 1
          example_header) = Inr 0"
  by (simp add: generate_adjoint_traces_def normalize_stage_def filter_stage_def
      example_header_def example_world_def upt_rec getcol_def setcol_def broadcast_def store_def
      call_adjoint_def par_def example_params_def lower_def lower_char_def example_tools_def
      example_numpy_def example_norms Let_def)

text \<open>
  C10. \<open>write_residuals\<close> leaves every array as it was. \<open>generate_adjoint_traces\<close>, called
  with two arrays, leaves the observed one as it was, exception or not; when the band-pass
  filter runs, this needs of that collaborator that, given the synthetic array, it neither
  writes to the observed array nor returns it. When \<open>generate_adjoint_traces\<close> returns,
  its loop has stored in every column \<open>i < nr\<close> of the synthetic array the adjoint trace of
  the receiver's synthetic and observed traces, leaving every other column and array, and
  the world it returns is that world passed through the reverse filter and the
  normalization. Without filtering, then, it returns the synthetic array itself, whose
  column \<open>i\<close> in the returned world is that adjoint trace, divided by the observed norm
  where normalization applies, and no other array has changed.
\<close>

theorem frame_effects:
  "arrays (snd (write_residuals T PAR W s d h)) = arrays W
   \<and> (s \<noteq> d
        \<and> (BANDPASS PAR \<noteq> Some True
           \<or> (\<forall>W' lo hi. fst (sbandpass T W' s h lo hi (Some ''reverse'')) \<noteq> d
                \<and> arrays (snd (sbandpass T W' s h lo hi (Some ''reverse''))) d = arrays W' d))
      \<longrightarrow> arrays (snd (generate_adjoint_traces NP T PAR W s d h)) d = arrays W d)
   \<and> (\<forall>a W3. generate_adjoint_traces NP T PAR W s d h = (Inr a, W3)
      \<longrightarrow> (\<exists>W1 W2. adjoint_loop T PAR s d h [0..<nat (nr h)] W = (Inr (), W1)
             \<and> (\<forall>b. b \<noteq> s \<longrightarrow> arrays W1 b = arrays W b)
             \<and> length (arrays W1 s) = length (arrays W s)
             \<and> (\<forall>i < nat (nr h). \<exists>w c.
                   call_adjoint T PAR (arrays W s ! i) (arrays W d ! i) (nt h) (dt h) = Inr w
                   \<and> broadcast (length (arrays W s ! i)) w = Inr c
                   \<and> arrays W1 s ! i = c)
             \<and> (\<forall>j < length (arrays W s). nat (nr h) \<le> j \<longrightarrow> arrays W1 s ! j = arrays W s ! j)
             \<and> filter_stage T PAR (Some ''reverse'') W1 s h = (Inr a, W2)
             \<and> normalize_stage NP PAR W2 a d h = (Inr a, W3)))
   \<and> (\<forall>a W3. BANDPASS PAR = Some False \<and> s \<noteq> d
             \<and> generate_adjoint_traces NP T PAR W s d h = (Inr a, W3)
      \<longrightarrow> a = s
          \<and> (\<forall>b. b \<noteq> s \<longrightarrow> arrays W3 b = arrays W b)
          \<and> (\<forall>i < nat (nr h). \<exists>w c.
                call_adjoint T PAR (arrays W s ! i) (arrays W d ! i) (nt h) (dt h) = Inr w
                \<and> broadcast (length (arrays W s ! i)) w = Inr c
                \<and> arrays W3 s ! i =
                    (if NORMALIZE PAR = Some True \<and> positive (linalg_norm NP (arrays W d ! i))
                     then map (\<lambda>x. true_divide NP x (linalg_norm NP (arrays W d ! i))) c
                     else c)))"
proof (intro conjI)
  show "arrays (snd (write_residuals T PAR W s d h)) = arrays W"
    by (rule write_residuals_arrays)
next
  show "s \<noteq> d
        \<and> (BANDPASS PAR \<noteq> Some True
           \<or> (\<forall>W' lo hi. fst (sbandpass T W' s h lo hi (Some ''reverse'')) \<noteq> d
                \<and> arrays (snd (sbandpass T W' s h lo hi (Some ''reverse''))) d = arrays W' d))
      \<longrightarrow> arrays (snd (generate_adjoint_traces NP T PAR W s d h)) d = arrays W d"
    using generate_adjoint_traces_keeps [of s d PAR T h NP W] by blast
next
  show "\<forall>a W3. generate_adjoint_traces NP T PAR W s d h = (Inr a, W3)
      \<longrightarrow> (\<exists>W1 W2. adjoint_loop T PAR s d h [0..<nat (nr h)] W = (Inr (), W1)
             \<and> (\<forall>b. b \<noteq> s \<longrightarrow> arrays W1 b = arrays W b)
             \<and> length (arrays W1 s) = length (arrays W s)
             \<and> (\<forall>i < nat (nr h). \<exists>w c.
                   call_adjoint T PAR (arrays W s ! i) (arrays W d ! i) (nt h) (dt h) = Inr w
                   \<and> broadcast (length (arrays W s ! i)) w = Inr c
                   \<and> arrays W1 s ! i = c)
             \<and> (\<forall>j < length (arrays W s). nat (nr h) \<le> j \<longrightarrow> arrays W1 s ! j = arrays W s ! j)
             \<and> filter_stage T PAR (Some ''reverse'') W1 s h = (Inr a, W2)
             \<and> normalize_stage NP PAR W2 a d h = (Inr a, W3))"
  proof (intro allI impI)
    fix a W3 assume run: "generate_adjoint_traces NP T PAR W s d h = (Inr a, W3)"
    from generate_adjoint_traces_stages [OF run] obtain W1 W2 where
      l: "adjoint_loop T PAR s d h [0..<nat (nr h)] W = (Inr (), W1)"
      and f: "filter_stage T PAR (Some ''reverse'') W1 s h = (Inr a, W2)"
      and n: "normalize_stage NP PAR W2 a d h = (Inr a, W3)"
      by blast
    note cols = adjoint_loop_cols [OF distinct_upt l]
    have other: "\<forall>b. b \<noteq> s \<longrightarrow> arrays W1 b = arrays W b"
      using adjoint_loop_frame [of _ s T PAR d h "[0..<nat (nr h)]" W] l by simp
    have len: "length (arrays W1 s) = length (arrays W s)"
      using cols by blast
    have each: "\<forall>i < nat (nr h). \<exists>w c.
                   call_adjoint T PAR (arrays W s ! i) (arrays W d ! i) (nt h) (dt h) = Inr w
                   \<and> broadcast (length (arrays W s ! i)) w = Inr c
                   \<and> arrays W1 s ! i = c"
      using cols by simp
    have beyond: "\<forall>j < length (arrays W s). nat (nr h) \<le> j \<longrightarrow> arrays W1 s ! j = arrays W s ! j"
      using cols by simp
    from l other len each beyond f n
    show "\<exists>W1 W2. adjoint_loop T PAR s d h [0..<nat (nr h)] W = (Inr (), W1)
             \<and> (\<forall>b. b \<noteq> s \<longrightarrow> arrays W1 b = arrays W b)
             \<and> length (arrays W1 s) = length (arrays W s)
             \<and> (\<forall>i < nat (nr h). \<exists>w c.
                   call_adjoint T PAR (arrays W s ! i) (arrays W d ! i) (nt h) (dt h) = Inr w
                   \<and> broadcast (length (arrays W s ! i)) w = Inr c
                   \<and> arrays W1 s ! i = c)
             \<and> (\<forall>j < length (arrays W s). nat (nr h) \<le> j \<longrightarrow> arrays W1 s ! j = arrays W s ! j)
             \<and> filter_stage T PAR (Some ''reverse'') W1 s h = (Inr a, W2)
             \<and> normalize_stage NP PAR W2 a d h = (Inr a, W3)"
      by blast
  qed
next
  show "\<forall>a W3. BANDPASS PAR = Some False \<and> s \<noteq> d
             \<and> generate_adjoint_traces NP T PAR W s d h = (Inr a, W3)
      \<longrightarrow> a = s
          \<and> (\<forall>b. b \<noteq> s \<longrightarrow> arrays W3 b = arrays W b)
          \<and> (\<forall>i < nat (nr h). \<exists>w c.
                call_adjoint T PAR (arrays W s ! i) (arrays W d ! i) (nt h) (dt h) = Inr w
                \<and> broadcast (length (arrays W s ! i)) w = Inr c
                \<and> arrays W3 s ! i =
                    (if NORMALIZE PAR = Some True \<and> positive (linalg_norm NP (arrays W d ! i))
                     then map (\<lambda>x. true_divide NP x (linalg_norm NP (arrays W d ! i))) c
                     else c))"
    using generate_adjoint_traces_unfiltered [of PAR s d NP T W h] by blast
qed

theorem frame_effects_witness:
  "arrays (snd (write_residuals example_tools example_params example_world 0 1 example_header))
     = arrays example_world
   \<and> arrays (snd (generate_adjoint_traces example_numpy example_tools
                     (example_params\<lparr>BANDPASS := Some True, FREQLO := Some 1, FREQHI := Some 2\<rparr>)
                     example_world 0 1 example_header)) 1
       = [[Finite 3, Finite 4], [Finite 0, Finite 0], [Finite 2, Finite 0]]
   \<and> fst (generate_adjoint_traces example_numpy example_tools example_params example_world 0 1
            example_header) = Inr 0
   \<and> arrays (snd (generate_adjoint_traces example_numpy example_tools example_params
                     example_world 0 1 example_header)) 1
       = [[Finite 3, Finite 4], [Finite 0, Finite 0], [Finite 2, Finite 0]]
   \<and> arrays (snd (generate_adjoint_traces example_numpy example_tools example_params
                     example_world 0 1 example_header)) 0 ! 0
       = [Finite (- 2 / 5), Finite (- 3 / 5)]
   \<and> arrays (snd (generate_adjoint_traces example_numpy example_tools example_params
                     example_world 0 1 example_header)) 0 ! 1
       = [Finite 1, Finite 1]"
proof -
  let ?F = "example_params\<lparr>BANDPASS := Some True, FREQLO := Some 1, FREQHI := Some 2\<rparr>"
  let ?run = "generate_adjoint_traces example_numpy example_tools example_params example_world 0 1
                example_header"
  have distinct: "(0::nat) \<noteq> 1"
    by simp
  have keeps: "\<forall>W' lo hi. fst (sbandpass example_tools W' 0 example_header lo hi (Some ''reverse'')) \<noteq> 1
              \<and> arrays (snd (sbandpass example_tools W' 0 example_header lo hi (Some ''reverse''))) 1
                  = arrays W' 1"
    by (simp add: example_tools_def example_sbandpass_def store_def)
  have off: "BANDPASS example_params = Some False"
    by (simp add: example_params_def)
  have on: "NORMALIZE example_params = Some True"
    by (simp add: example_params_def)
  have obs: "arrays example_world 1 = [[Finite 3, Finite 4], [Finite 0, Finite 0], [Finite 2, Finite 0]]"
    and syn: "arrays example_world 0 = [[Finite 1, Finite 1], [Finite 1, Finite 1], [Finite 1, Finite 1]]"
    by (simp_all add: example_world_def)
  note F = frame_effects [where T = example_tools and PAR = ?F and W = example_world
      and s = 0 and d = 1 and h = example_header and NP = example_numpy]
  note E = frame_effects [where T = example_tools and PAR = example_params and W = example_world
      and s = 0 and d = 1 and h = example_header and NP = example_numpy]
  from E have one: "arrays (snd (write_residuals example_tools example_params example_world 0 1
                                   example_header)) = arrays example_world"
    by blast
  from F distinct keeps
  have "arrays (snd (generate_adjoint_traces example_numpy example_tools ?F example_world 0 1
                       example_header)) 1 = arrays example_world 1"
    by blast
  with obs have two: "arrays (snd (generate_adjoint_traces example_numpy example_tools ?F
                                     example_world 0 1 example_header)) 1
       = [[Finite 3, Finite 4], [Finite 0, Finite 0], [Finite 2, Finite 0]]"
    by simp
  have run: "?run = (Inr 0, snd ?run)"
    using example_run by (simp add: prod_eq_iff)
  from E off distinct run
  have other: "\<forall>b. b \<noteq> 0 \<longrightarrow> arrays (snd ?run) b = arrays example_world b"
    and cols: "\<forall>i < nat (nr example_header). \<exists>w c.
                call_adjoint example_tools example_params (arrays example_world 0 ! i)
                  (arrays example_world 1 ! i) (nt example_header) (dt example_header) = Inr w
                \<and> broadcast (length (arrays example_world 0 ! i)) w = Inr c
                \<and> arrays (snd ?run) 0 ! i =
                    (if NORMALIZE example_params = Some True
                        \<and> positive (linalg_norm example_numpy (arrays example_world 1 ! i))
                     then map (\<lambda>x. true_divide example_numpy x
                                      (linalg_norm example_numpy (arrays example_world 1 ! i))) c
                     else c)"
    by blast+
  from other distinct obs have three: "arrays (snd ?run) 1
       = [[Finite 3, Finite 4], [Finite 0, Finite 0], [Finite 2, Finite 0]]"
    by simp
  have adj: "\<And>a b. call_adjoint example_tools example_params a b (nt example_header)
               (dt example_header) = Inr (map2 example_subtract a b)"
    by (simp add: call_adjoint_def par_def example_params_def lower_def lower_char_def
        example_tools_def)
  have i0: "0 < nat (nr example_header)" and i1: "1 < nat (nr example_header)"
    by (simp_all add: example_header_def)
  have s0: "arrays example_world 0 ! 0 = [Finite 1, Finite 1]"
    and d0: "arrays example_world 1 ! 0 = [Finite 3, Finite 4]"
    and s1: "arrays example_world 0 ! 1 = [Finite 1, Finite 1]"
    and d1: "arrays example_world 1 ! 1 = [Finite 0, Finite 0]"
    by (simp_all add: example_world_def)
  from cols i0 obtain w0 c0 where
    w0: "call_adjoint example_tools example_params (arrays example_world 0 ! 0)
           (arrays example_world 1 ! 0) (nt example_header) (dt example_header) = Inr w0"
    and c0: "broadcast (length (arrays example_world 0 ! 0)) w0 = Inr c0"
    and r0: "arrays (snd ?run) 0 ! 0 =
               (if NORMALIZE example_params = Some True
                   \<and> positive (linalg_norm example_numpy (arrays example_world 1 ! 0))
                then map (\<lambda>x. true_divide example_numpy x
                                 (linalg_norm example_numpy (arrays example_world 1 ! 0))) c0
                else c0)"
    by blast
  from w0 have "w0 = [Finite (- 2), Finite (- 3)]"
    unfolding s0 d0 adj by simp
  with c0 have "c0 = [Finite (- 2), Finite (- 3)]"
    unfolding s0 by (simp add: broadcast_def)
  with r0 have four: "arrays (snd ?run) 0 ! 0 = [Finite (- 2 / 5), Finite (- 3 / 5)]"
    unfolding d0 by (simp add: on example_numpy_def example_norms)
  from cols i1 obtain w1 c1 where
    w1: "call_adjoint example_tools example_params (arrays example_world 0 ! 1)
           (arrays example_world 1 ! 1) (nt example_header) (dt example_header) = Inr w1"
    and c1: "broadcast (length (arrays example_world 0 ! 1)) w1 = Inr c1"
    and r1: "arrays (snd ?run) 0 ! 1 =
               (if NORMALIZE example_params = Some True
                   \<and> positive (linalg_norm example_numpy (arrays example_world 1 ! 1))
                then map (\<lambda>x. true_divide example_numpy x
                                 (linalg_norm example_numpy (arrays example_world 1 ! 1))) c1
                else c1)"
    by blast
  from w1 have "w1 = [Finite 1, Finite 1]"
    unfolding s1 d1 adj by simp
  with c1 have "c1 = [Finite 1, Finite 1]"
    unfolding s1 by (simp add: broadcast_def)
  with r1 have five: "arrays (snd ?run) 0 ! 1 = [Finite 1, Finite 1]"
    unfolding d1 by (simp add: example_numpy_def example_norms)
  from one two example_run three four five show ?thesis
    by blast
qed

end
